theory Spec2Isabelle
  imports Main "HOL-Library.AList"
begin

section \<open>Data model of the signaling server\<close>

text \<open>
  The server keeps two process-wide tables, both JavaScript \<open>Map\<close>s: \<open>devices\<close>
  (device id to device record) and \<open>pendingRequests\<close> (correlation id to pending entry).
  A \<open>Map\<close> iterates in insertion order and holds one entry per key, so each is an
  association list: \<open>Map.set\<close> is \<open>AList.update\<close> (an existing key keeps its place, a new
  one goes last), \<open>Map.delete\<close> is \<open>AList.delete\<close>, \<open>Map.get\<close> is \<open>map_of\<close>.
  Times are milliseconds as \<open>int\<close>. Opaque JSON passed through unchanged (file listings,
  session descriptions) is a string.
\<close>

type_synonym json = string
type_synonym buffer = "nat list"

record device =
  dev_id :: string
  dev_name :: string
  dev_type :: string
  socketId :: "string option"
  status :: string
  connectedAt :: int
  lastActivity :: int
  ipAddress :: "string option"

text \<open>
  A pending entry is one of the two object shapes the server stores:
  \<open>{resolve, reject, timestamp}\<close> for a directory listing (the number names the promise that
  \<open>resolve\<close> and \<open>reject\<close> settle) and \<open>{response, startTime, timeoutId}\<close> for a download
  (the first number names the HTTP response object).
\<close>

datatype pendingRequest =
    ListRequest nat int
  | DownloadRequest nat int "nat option"

datatype promise = Pending | Fulfilled "json option" | Rejected string

record response =
  headers :: "(string \<times> string) list"
  headersSent :: bool
  statusCode :: nat
  written :: "buffer list"
  errorBody :: "string option"
  ended :: nat

datatype timeout = BrowseTimeout string nat | DownloadTimeout string nat

datatype message =
    DevicesMsg "(string \<times> string \<times> string \<times> string) list"
  | RegisteredMsg string
  | SignalMsg "string option" "json option"
  | ListRequestMsg string string
  | DownloadRequestMsg string string
  | PongMsg int
  | ListResponseMsg "string option" "string option" "json option" "string option"
  | DownloadChunkMsg "string option" "string option" "string option" "bool option" "string option"

datatype emission =
    ToAll string message
  | ToRoom "string option" string message
  | ToSocket string string message

datatype exn = TypeError string

datatype reply = ErrorReply nat string | FilesReply "json option" | SuccessReply string

datatype browseResult = Replied reply | Awaiting nat

record server =
  devices :: "(string \<times> device) list"
  pendingRequests :: "(string \<times> pendingRequest) list"
  promises :: "nat \<Rightarrow> promise"
  responses :: "nat \<Rightarrow> response"
  timers :: "(nat \<times> int \<times> timeout) list"
  socketDeviceId :: "string \<Rightarrow> string option"
  promiseCount :: nat
  timerCount :: nat
  outbox :: "emission list"

record registration =
  reg_deviceId :: "string option"
  reg_deviceName :: "string option"
  reg_deviceType :: "string option"
  reg_ipAddress :: "string option"

record signal =
  sig_targetDeviceId :: "string option"
  sig_payload :: "json option"

record listResponse =
  lr_requestId :: "string option"
  lr_files :: "json option"
  lr_error :: "string option"

record downloadChunk =
  ch_requestId :: "string option"
  ch_chunk :: "string option"
  ch_isLast :: "bool option"
  ch_error :: "string option"

section \<open>Configuration\<close>

definition DEVICE_TTL :: int where
  "DEVICE_TTL = 30 * 60 * 1000"

definition PENDING_REQUEST_TIMEOUT :: int where
  "PENDING_REQUEST_TIMEOUT = 30 * 1000"

definition MAX_DEVICES :: nat where
  "MAX_DEVICES = 100"

section \<open>JavaScript truthiness and defaults\<close>

definition truthy :: "string option \<Rightarrow> bool" where
  "truthy v = (case v of None \<Rightarrow> False | Some s \<Rightarrow> s \<noteq> [])"

definition truthyFlag :: "bool option \<Rightarrow> bool" where
  "truthyFlag v = (case v of None \<Rightarrow> False | Some b \<Rightarrow> b)"

definition orElse :: "string option \<Rightarrow> string \<Rightarrow> string" where
  "orElse v d = (case v of None \<Rightarrow> d | Some s \<Rightarrow> if s = [] then d else s)"

definition orNull :: "string option \<Rightarrow> string option" where
  "orNull v = (if truthy v then v else None)"

section \<open>Base64 decoding of a chunk\<close>

text \<open>
  \<open>Buffer.from(chunk, 'base64')\<close> is Node's library. Its decoder reads the standard and
  the URL-safe alphabet, skips every other character, stops at the first \<open>=\<close> and drops
  an incomplete trailing byte.
\<close>

definition b64chars :: string where
  "b64chars = ''ABCDEFGHIJKLMNOPQRSTUVWXYZabcdefghijklmnopqrstuvwxyz0123456789+/''"

fun index_of :: "'a \<Rightarrow> 'a list \<Rightarrow> nat option" where
  "index_of x [] = None"
| "index_of x (y # ys) = (if x = y then Some 0 else map_option Suc (index_of x ys))"

definition unbase64 :: "char \<Rightarrow> nat option" where
  "unbase64 c =
     (if c = CHR ''-'' then Some 62 else if c = CHR ''_'' then Some 63
      else index_of c b64chars)"

fun sextets :: "string \<Rightarrow> nat list" where
  "sextets [] = []"
| "sextets (c # cs) =
     (if c = CHR ''='' then []
      else case unbase64 c of None \<Rightarrow> sextets cs | Some v \<Rightarrow> v # sextets cs)"

fun octets :: "nat list \<Rightarrow> buffer" where
  "octets (a # b # c # d # r) =
     (a * 4 + b div 16) # ((b mod 16) * 16 + c div 4) # ((c mod 4) * 64 + d) # octets r"
| "octets [a, b, c] = [a * 4 + b div 16, (b mod 16) * 16 + c div 4]"
| "octets [a, b] = [a * 4 + b div 16]"
| "octets [a] = []"
| "octets [] = []"

definition base64_decode :: "string \<Rightarrow> buffer" where
  "base64_decode s = octets (sextets s)"

section \<open>Effects: emissions, promises, response objects, tables\<close>

definition emit :: "emission \<Rightarrow> server \<Rightarrow> server" where
  "emit e s = s\<lparr>outbox := outbox s @ [e]\<rparr>"

text \<open>A promise settles once: \<open>resolve\<close> and \<open>reject\<close> on a settled promise do nothing.\<close>

definition settle :: "nat \<Rightarrow> promise \<Rightarrow> server \<Rightarrow> server" where
  "settle p v s = (if promises s p = Pending then s\<lparr>promises := (promises s)(p := v)\<rparr> else s)"

definition res_write :: "buffer \<Rightarrow> response \<Rightarrow> response" where
  "res_write b r = r\<lparr>headersSent := True, written := written r @ [b]\<rparr>"

definition res_end :: "response \<Rightarrow> response" where
  "res_end r = r\<lparr>headersSent := True, ended := ended r + 1\<rparr>"

definition res_status_json :: "nat \<Rightarrow> string \<Rightarrow> response \<Rightarrow> response" where
  "res_status_json code msg r =
     r\<lparr>headersSent := True, statusCode := code, errorBody := Some msg, ended := ended r + 1\<rparr>"

definition res_setHeader :: "string \<Rightarrow> string \<Rightarrow> response \<Rightarrow> response" where
  "res_setHeader k v r = r\<lparr>headers := AList.update k v (headers r)\<rparr>"

definition onResponse :: "nat \<Rightarrow> (response \<Rightarrow> response) \<Rightarrow> server \<Rightarrow> server" where
  "onResponse r f s = s\<lparr>responses := (responses s)(r := f (responses s r))\<rparr>"

definition pending_set :: "string \<Rightarrow> pendingRequest \<Rightarrow> server \<Rightarrow> server" where
  "pending_set k v s = s\<lparr>pendingRequests := AList.update k v (pendingRequests s)\<rparr>"

definition pending_delete :: "string \<Rightarrow> server \<Rightarrow> server" where
  "pending_delete k s = s\<lparr>pendingRequests := AList.delete k (pendingRequests s)\<rparr>"

definition pending_get :: "server \<Rightarrow> string option \<Rightarrow> pendingRequest option" where
  "pending_get s k = (case k of None \<Rightarrow> None | Some rid \<Rightarrow> map_of (pendingRequests s) rid)"

definition devices_get :: "server \<Rightarrow> string option \<Rightarrow> device option" where
  "devices_get s k = (case k of None \<Rightarrow> None | Some d \<Rightarrow> map_of (devices s) d)"

definition clearTimeout :: "nat option \<Rightarrow> server \<Rightarrow> server" where
  "clearTimeout t s =
     (case t of None \<Rightarrow> s | Some tid \<Rightarrow> s\<lparr>timers := AList.delete tid (timers s)\<rparr>)"

definition setTimeout :: "timeout \<Rightarrow> int \<Rightarrow> server \<Rightarrow> server" where
  "setTimeout f due s =
     s\<lparr>timers := AList.update (timerCount s) (due, f) (timers s), timerCount := timerCount s + 1\<rparr>"

section \<open>Registry: broadcast, registration, removal\<close>

definition snapshot :: "(string \<times> device) list \<Rightarrow> (string \<times> string \<times> string \<times> string) list" where
  "snapshot ds = map (\<lambda>(k, d). (dev_id d, dev_name d, dev_type d, status d)) ds"

definition broadcastDeviceList :: "server \<Rightarrow> server" where
  "broadcastDeviceList s = emit (ToAll ''devices'' (DevicesMsg (snapshot (devices s)))) s"

definition socketDevice :: "int \<Rightarrow> string \<Rightarrow> string \<Rightarrow> registration \<Rightarrow> device" where
  "socketDevice now sid deviceId data =
     \<lparr>dev_id = deviceId,
      dev_name = orElse (reg_deviceName data) ''Unknown Device'',
      dev_type = orElse (reg_deviceType data) ''unknown'',
      socketId = Some sid,
      status = ''online'',
      connectedAt = now,
      lastActivity = now,
      ipAddress = orNull (reg_ipAddress data)\<rparr>"

text \<open>
  \<open>socket.on('register')\<close>. \<open>uuid\<close> is what \<open>uuidv4()\<close> returns. A missing payload makes
  \<open>data.deviceId\<close> throw inside the handler's \<open>try\<close>; the \<open>catch\<close> only logs.
\<close>

definition on_register :: "int \<Rightarrow> string \<Rightarrow> string \<Rightarrow> registration option \<Rightarrow> server \<Rightarrow> server" where
  "on_register now uuid sid data s =
     (case data of
        None \<Rightarrow> s
      | Some d \<Rightarrow>
          (let deviceId = orElse (reg_deviceId d) uuid;
               s1 = s\<lparr>devices := AList.update deviceId (socketDevice now sid deviceId d) (devices s)\<rparr>;
               s2 = s1\<lparr>socketDeviceId := (socketDeviceId s1)(sid := Some deviceId)\<rparr>;
               s3 = emit (ToSocket sid ''registered'' (RegisteredMsg deviceId)) s2
           in broadcastDeviceList s3))"

text \<open>\<open>socket.on('register_device')\<close>: the same, behind an explicit \<open>if (!data) return\<close>.\<close>

definition on_register_device :: "int \<Rightarrow> string \<Rightarrow> string \<Rightarrow> registration option \<Rightarrow> server \<Rightarrow> server" where
  "on_register_device now uuid sid data s =
     (case data of
        None \<Rightarrow> s
      | Some d \<Rightarrow>
          (let deviceId = orElse (reg_deviceId d) uuid;
               s1 = s\<lparr>devices := AList.update deviceId (socketDevice now sid deviceId d) (devices s)\<rparr>;
               s2 = s1\<lparr>socketDeviceId := (socketDeviceId s1)(sid := Some deviceId)\<rparr>;
               s3 = emit (ToSocket sid ''registered'' (RegisteredMsg deviceId)) s2
           in broadcastDeviceList s3))"

text \<open>\<open>app.post('/api/ftp/register')\<close>: registration without a socket.\<close>

definition ftp_register :: "int \<Rightarrow> string option \<Rightarrow> string option \<Rightarrow> string option \<Rightarrow> server \<Rightarrow> reply \<times> server" where
  "ftp_register now deviceId deviceName ipAddr s =
     (if \<not> truthy deviceId \<or> \<not> truthy ipAddr
      then (ErrorReply 400 ''deviceId and ipAddress are required'', s)
      else
        (let k = orElse deviceId [];
             s1 = s\<lparr>devices := AList.update k
                    \<lparr>dev_id = k,
                     dev_name = orElse deviceName ''Unknown Device'',
                     dev_type = ''ftp-only'',
                     socketId = None,
                     status = ''online'',
                     connectedAt = now,
                     lastActivity = now,
                     ipAddress = ipAddr\<rparr> (devices s)\<rparr>
         in (SuccessReply k, broadcastDeviceList s1)))"

text \<open>\<open>socket.on('disconnect')\<close>.\<close>

definition on_disconnect :: "string \<Rightarrow> server \<Rightarrow> server" where
  "on_disconnect sid s =
     (if truthy (socketDeviceId s sid)
      then broadcastDeviceList (s\<lparr>devices := AList.delete (orElse (socketDeviceId s sid) []) (devices s)\<rparr>)
      else s)"

text \<open>\<open>socket.on('ping')\<close>: answers \<open>pong\<close> and logs.\<close>

definition on_ping :: "int \<Rightarrow> string \<Rightarrow> server \<Rightarrow> server" where
  "on_ping now sid s = emit (ToSocket sid ''pong'' (PongMsg now)) s"

section \<open>Signaling relay\<close>

text \<open>
  \<open>socket.on('offer')\<close>, \<open>'answer'\<close> and \<open>'ice-candidate'\<close> have one body up to the event
  name and the name of the payload field.
\<close>

definition relay :: "string \<Rightarrow> string \<Rightarrow> signal \<Rightarrow> server \<Rightarrow> server" where
  "relay ev sid data s =
     (case devices_get s (sig_targetDeviceId data) of
        Some targetDevice \<Rightarrow>
          emit (ToRoom (socketId targetDevice) ev (SignalMsg (socketDeviceId s sid) (sig_payload data))) s
      | None \<Rightarrow> s)"

definition on_offer :: "string \<Rightarrow> signal \<Rightarrow> server \<Rightarrow> server" where
  "on_offer = relay ''offer''"

definition on_answer :: "string \<Rightarrow> signal \<Rightarrow> server \<Rightarrow> server" where
  "on_answer = relay ''answer''"

definition on_ice_candidate :: "string \<Rightarrow> signal \<Rightarrow> server \<Rightarrow> server" where
  "on_ice_candidate = relay ''ice-candidate''"

text \<open>
  Who receives an emission. Socket.IO puts every connected socket in the room named by its
  own id, and the server never calls \<open>join\<close>, so these are the only rooms: \<open>io.emit\<close>
  reaches every connected socket, \<open>io.to(room).emit\<close> the sockets in that room (none when
  no such room exists, as for \<open>null\<close>), and \<open>socket.emit\<close> the socket itself.
  \<open>forwarded\<close> lists what handling one relay event delivers, and to which sockets.
\<close>

fun recipients :: "string list \<Rightarrow> emission \<Rightarrow> string list" where
  "recipients connected (ToAll ev m) = connected"
| "recipients connected (ToRoom None ev m) = []"
| "recipients connected (ToRoom (Some room) ev m) = filter (\<lambda>c. c = room) connected"
| "recipients connected (ToSocket sid ev m) = filter (\<lambda>c. c = sid) connected"

fun eventOf :: "emission \<Rightarrow> string \<times> message" where
  "eventOf (ToAll ev m) = (ev, m)"
| "eventOf (ToRoom room ev m) = (ev, m)"
| "eventOf (ToSocket sid ev m) = (ev, m)"

definition deliveries :: "string list \<Rightarrow> emission list \<Rightarrow> (string \<times> string \<times> message) list" where
  "deliveries connected ems =
     concat (map (\<lambda>e. map (\<lambda>c. (c, eventOf e)) (recipients connected e)) ems)"

definition forwarded :: "string list \<Rightarrow> string \<Rightarrow> string \<Rightarrow> signal \<Rightarrow> server \<Rightarrow> (string \<times> string \<times> message) list" where
  "forwarded connected ev sid data s =
     deliveries connected (drop (length (outbox s)) (outbox (relay ev sid data s)))"

section \<open>Eviction sweep of the registry\<close>

text \<open>The local \<open>lastActivity\<close> of the sweep: \<open>device.lastActivity || device.connectedAt?.getTime() || 0\<close>.\<close>

definition lastActivityOf :: "device \<Rightarrow> int" where
  "lastActivityOf d =
     (if lastActivity d \<noteq> 0 then lastActivity d
      else if connectedAt d \<noteq> 0 then connectedAt d else 0)"

definition evictStale :: "int \<Rightarrow> int \<Rightarrow> (string \<times> device) list \<Rightarrow> (string \<times> device) list" where
  "evictStale ttl now ds =
     foldl (\<lambda>m (deviceId, d). if now - lastActivityOf d > ttl then AList.delete deviceId m else m) ds ds"

definition enforceMax :: "nat \<Rightarrow> (string \<times> device) list \<Rightarrow> (string \<times> device) list" where
  "enforceMax maxDevices ds =
     (if length ds > maxDevices
      then
        (let sortedDevices = sort_key (\<lambda>e. lastActivityOf (snd e)) ds;
             toRemove = length ds - maxDevices
         in foldl (\<lambda>m i. AList.delete (fst (sortedDevices ! i)) m) ds [0..<toRemove])
      else ds)"

definition sweepDevices :: "int \<Rightarrow> nat \<Rightarrow> int \<Rightarrow> (string \<times> device) list \<Rightarrow> (string \<times> device) list" where
  "sweepDevices ttl maxDevices now ds = enforceMax maxDevices (evictStale ttl now ds)"

definition cleanupStaleDevices :: "int \<Rightarrow> server \<Rightarrow> server" where
  "cleanupStaleDevices now s = s\<lparr>devices := sweepDevices DEVICE_TTL MAX_DEVICES now (devices s)\<rparr>"

section \<open>Pending requests: browse, download, responses, timeouts, sweep\<close>

text \<open>
  \<open>app.get('/api/ftp/browse')\<close> up to its \<open>await\<close>. \<open>requestId\<close> is what
  \<open>generateRequestId()\<close> returns. The reply of a request that waits is read off its promise
  by \<open>browse_reply\<close>.
\<close>

definition browse :: "int \<Rightarrow> string \<Rightarrow> string option \<Rightarrow> string option \<Rightarrow> server \<Rightarrow> browseResult \<times> server" where
  "browse now requestId deviceId path s =
     (if \<not> truthy deviceId then (Replied (ErrorReply 400 ''deviceId is required''), s)
      else case devices_get s deviceId of
        None \<Rightarrow> (Replied (ErrorReply 404 ''Device not found or offline''), s)
      | Some dev \<Rightarrow>
          if \<not> truthy (socketId dev)
          then (Replied (ErrorReply 400 ''Device not connected via WebSocket''), s)
          else
            (let p = promiseCount s;
                 s1 = s\<lparr>promises := (promises s)(p := Pending), promiseCount := p + 1\<rparr>;
                 s2 = pending_set requestId (ListRequest p now) s1;
                 s3 = setTimeout (BrowseTimeout requestId p) (now + 30000) s2;
                 s4 = emit (ToRoom (socketId dev) ''ftp-list-request''
                        (ListRequestMsg requestId (case path of None \<Rightarrow> ''/'' | Some q \<Rightarrow> q))) s3
             in (Awaiting p, s4)))"

definition browse_reply :: "promise \<Rightarrow> reply option" where
  "browse_reply v =
     (case v of Pending \<Rightarrow> None
      | Fulfilled files \<Rightarrow> Some (FilesReply files)
      | Rejected msg \<Rightarrow> Some (ErrorReply 500 msg))"

text \<open>\<open>app.get('/api/ftp/download')\<close>; \<open>r\<close> names the request's response object \<open>res\<close>.\<close>

definition download :: "int \<Rightarrow> string \<Rightarrow> nat \<Rightarrow> string option \<Rightarrow> string option \<Rightarrow> string option \<Rightarrow> server \<Rightarrow> server" where
  "download now requestId r deviceId path filename s =
     (if \<not> truthy deviceId \<or> \<not> truthy path
      then onResponse r (res_status_json 400 ''deviceId and path are required'') s
      else case devices_get s deviceId of
        None \<Rightarrow> onResponse r (res_status_json 404 ''Device not found or offline'') s
      | Some dev \<Rightarrow>
          if \<not> truthy (socketId dev)
          then onResponse r (res_status_json 400 ''Device not connected via WebSocket'') s
          else
            (let s1 = onResponse r
                   (res_setHeader ''Transfer-Encoding'' ''chunked'' \<circ>
                    res_setHeader ''Content-Type'' ''application/octet-stream'' \<circ>
                    res_setHeader ''Content-Disposition''
                      (''attachment; filename='' @ [CHR 0x22] @ orElse filename ''download'' @ [CHR 0x22])) s;
                 s2 = pending_set requestId (DownloadRequest r now None) s1;
                 timeoutId = timerCount s2;
                 s3 = setTimeout (DownloadTimeout requestId r) (now + 600000) s2;
                 s4 = pending_set requestId (DownloadRequest r now (Some timeoutId)) s3
             in emit (ToRoom (socketId dev) ''ftp-download-request''
                  (DownloadRequestMsg requestId (orElse path []))) s4))"

text \<open>
  \<open>socket.on('ftp-list-response')\<close>. An entry without \<open>resolve\<close> and \<open>reject\<close> (a download
  entry) makes the call throw before the entry is deleted and before the broadcast.
\<close>

definition on_ftp_list_response :: "string \<Rightarrow> listResponse \<Rightarrow> server \<Rightarrow> exn option \<times> server" where
  "on_ftp_list_response sid data s =
     (let requestId = lr_requestId data; files = lr_files data; error = lr_error data;
          broadcast = emit (ToAll ''ftp-list-response''
            (ListResponseMsg requestId (socketDeviceId s sid) files error))
      in case pending_get s requestId of
           None \<Rightarrow> (None, broadcast s)
         | Some (ListRequest p ts) \<Rightarrow>
             (let s1 = (if truthy error then settle p (Rejected (orElse error [])) s
                        else settle p (Fulfilled files) s)
              in (None, broadcast (pending_delete (orElse requestId []) s1)))
         | Some (DownloadRequest r st tid) \<Rightarrow>
             (Some (TypeError (if truthy error then ''pendingRequest.reject is not a function''
                               else ''pendingRequest.resolve is not a function'')), s))"

text \<open>
  \<open>socket.on('ftp-download-chunk')\<close>. On a listing entry \<open>response\<close> and \<open>timeoutId\<close> are
  \<open>undefined\<close>: \<open>clearTimeout(undefined)\<close> does nothing and the first use of \<open>response\<close>
  throws.
\<close>

definition on_ftp_download_chunk :: "string \<Rightarrow> downloadChunk \<Rightarrow> server \<Rightarrow> exn option \<times> server" where
  "on_ftp_download_chunk sid data s =
     (let requestId = ch_requestId data; chunk = ch_chunk data;
          isLast = ch_isLast data; error = ch_error data;
          rid = orElse requestId [];
          broadcast = emit (ToAll ''ftp-download-chunk''
            (DownloadChunkMsg requestId (socketDeviceId s sid) chunk isLast error))
      in case pending_get s requestId of
           None \<Rightarrow> (None, broadcast s)
         | Some (DownloadRequest r startTime timeoutId) \<Rightarrow>
             if truthy error
             then
               (let s1 = pending_delete rid (clearTimeout timeoutId s)
                in (None, broadcast
                     (if \<not> headersSent (responses s1 r)
                      then onResponse r (res_status_json 500 (orElse error [])) s1
                      else onResponse r res_end s1)))
             else
               (let s1 = (if truthy chunk
                          then onResponse r (res_write (base64_decode (orElse chunk []))) s else s);
                    s2 = (if truthyFlag isLast
                          then pending_delete rid (clearTimeout timeoutId (onResponse r res_end s1))
                          else s1)
                in (None, broadcast s2))
         | Some (ListRequest p ts) \<Rightarrow>
             if truthy error
             then (Some (TypeError ''Cannot read properties of undefined (reading 'headersSent')''),
                   pending_delete rid s)
             else if truthy chunk
             then (Some (TypeError ''Cannot read properties of undefined (reading 'write')''), s)
             else if truthyFlag isLast
             then (Some (TypeError ''Cannot read properties of undefined (reading 'end')''), s)
             else (None, broadcast s))"

text \<open>
  A scheduled timeout fires: the closure of \<open>setTimeout\<close> in browse (30 seconds) or in
  download (10 minutes). A timer fires once; a cleared timer never fires.
\<close>

definition timeout_fires :: "nat \<Rightarrow> server \<Rightarrow> server" where
  "timeout_fires tid s =
     (case map_of (timers s) tid of
        None \<Rightarrow> s
      | Some (due, f) \<Rightarrow>
          (let s0 = s\<lparr>timers := AList.delete tid (timers s)\<rparr>
           in case f of
                BrowseTimeout requestId p \<Rightarrow>
                  if map_of (pendingRequests s0) requestId \<noteq> None
                  then settle p (Rejected ''Request timeout'') (pending_delete requestId s0)
                  else s0
              | DownloadTimeout requestId r \<Rightarrow>
                  if map_of (pendingRequests s0) requestId \<noteq> None
                  then
                    (let s1 = pending_delete requestId s0
                     in if \<not> headersSent (responses s1 r)
                        then onResponse r (res_status_json 500 ''Request timeout'') s1
                        else onResponse r res_end s1)
                  else s0))"

text \<open>\<open>cleanupPendingRequests\<close>: \<open>request.timestamp || 0\<close> and \<open>request.reject\<close> per entry.\<close>

fun timestampOr0 :: "pendingRequest \<Rightarrow> int" where
  "timestampOr0 (ListRequest p ts) = ts"
| "timestampOr0 (DownloadRequest r startTime timeoutId) = 0"

fun rejectOf :: "pendingRequest \<Rightarrow> nat option" where
  "rejectOf (ListRequest p ts) = Some p"
| "rejectOf (DownloadRequest r startTime timeoutId) = None"

definition sweepRequest :: "int \<Rightarrow> server \<Rightarrow> string \<times> pendingRequest \<Rightarrow> server" where
  "sweepRequest now s e =
     (let age = now - timestampOr0 (snd e)
      in if age > PENDING_REQUEST_TIMEOUT
         then pending_delete (fst e)
                (case rejectOf (snd e) of
                   Some p \<Rightarrow> settle p (Rejected ''Request timeout'') s
                 | None \<Rightarrow> s)
         else s)"

definition cleanupPendingRequests :: "int \<Rightarrow> server \<Rightarrow> server" where
  "cleanupPendingRequests now s = foldl (sweepRequest now) s (pendingRequests s)"

section \<open>Event sequences on one correlation id\<close>

datatype event =
    ListResponseEvent string listResponse
  | DownloadChunkEvent string downloadChunk
  | TimeoutEvent nat

fun handle :: "server \<Rightarrow> event \<Rightarrow> exn option \<times> server" where
  "handle s (ListResponseEvent sid data) = on_ftp_list_response sid data s"
| "handle s (DownloadChunkEvent sid data) = on_ftp_download_chunk sid data s"
| "handle s (TimeoutEvent tid) = (None, timeout_fires tid s)"

text \<open>Events are handled one after the other; an uncaught exception ends the run.\<close>

fun run :: "server \<Rightarrow> event list \<Rightarrow> exn option \<times> server" where
  "run s [] = (None, s)"
| "run s (e # es) = (case handle s e of (None, s') \<Rightarrow> run s' es | (Some x, s') \<Rightarrow> (Some x, s'))"

definition initial :: server where
  "initial = \<lparr>devices = [], pendingRequests = [], promises = (\<lambda>_. Pending),
     responses = (\<lambda>_. \<lparr>headers = [], headersSent = False, statusCode = 200, written = [],
                       errorBody = None, ended = 0\<rparr>),
     timers = [], socketDeviceId = (\<lambda>_. None), promiseCount = 0, timerCount = 0, outbox = []\<rparr>"

text \<open>
  The events of one download as the device sends them: chunks \<open>c1 .. cn\<close> for one
  correlation id, without an error field, the last one marked \<open>isLast\<close>.
\<close>

definition chunkEvent :: "string \<Rightarrow> string \<Rightarrow> bool \<Rightarrow> string \<Rightarrow> event" where
  "chunkEvent sid requestId isLast c =
     DownloadChunkEvent sid
       \<lparr>ch_requestId = Some requestId, ch_chunk = Some c, ch_isLast = Some isLast, ch_error = None\<rparr>"

definition chunkEvents :: "string \<Rightarrow> string \<Rightarrow> string list \<Rightarrow> string \<Rightarrow> event list" where
  "chunkEvents sid requestId cs cn =
     map (chunkEvent sid requestId False) cs @ [chunkEvent sid requestId True cn]"







section \<open>Scenario states\<close>

text \<open>
  Concrete states reached by running the handlers from the empty server: a device
  registered over its socket, the same device with a listing or a download in flight, and a
  device registered through the HTTP endpoint only. Clock readings are milliseconds since
  1970, as \<open>Date.now()\<close> gives them.
\<close>

definition dev1 :: registration where
  "dev1 = \<lparr>reg_deviceId = Some ''dev-1'', reg_deviceName = Some ''Pixel'',
            reg_deviceType = Some ''android'', reg_ipAddress = None\<rparr>"

definition registered :: server where
  "registered = on_register_device 1700000000000 ''uuid-1'' ''sock1'' (Some dev1) initial"

definition browsing :: server where
  "browsing = snd (browse 1700000001000 ''req_a'' (Some ''dev-1'') (Some ''/'') registered)"

definition downloading :: server where
  "downloading = download 1700000002000 ''req_b'' 7 (Some ''dev-1'') (Some ''/a.bin'') None registered"

definition ftpOnly :: server where
  "ftpOnly = snd (ftp_register 1700000000000 (Some ''dev-1'') None (Some ''10.0.0.5'') initial)"

definition threeDevices :: server where
  "threeDevices =
     on_register 1700000900000 ''uuid-3'' ''sock3''
       (Some \<lparr>reg_deviceId = Some ''dev-3'', reg_deviceName = None, reg_deviceType = None,
              reg_ipAddress = None\<rparr>)
       (on_register 1700000600000 ''uuid-2'' ''sock2''
          (Some \<lparr>reg_deviceId = Some ''dev-2'', reg_deviceName = None, reg_deviceType = None,
                 reg_ipAddress = None\<rparr>)
          registered)"





definition offer1 :: signal where
  "offer1 = \<lparr>sig_targetDeviceId = Some ''dev-1'', sig_payload = Some ''sdp''\<rparr>"

section \<open>Unfolding rules\<close>

lemmas effect_defs = emit_def settle_def onResponse_def pending_set_def pending_delete_def
  pending_get_def devices_get_def clearTimeout_def setTimeout_def broadcastDeviceList_def

lemmas js_defs = truthy_def truthyFlag_def orElse_def orNull_def

lemmas scenario_defs = dev1_def registered_def browsing_def downloading_def ftpOnly_def initial_def
  on_register_device_def browse_def download_def ftp_register_def socketDevice_def snapshot_def

lemmas sweep_defs = cleanupStaleDevices_def sweepDevices_def evictStale_def enforceMax_def
  lastActivityOf_def DEVICE_TTL_def MAX_DEVICES_def

lemma delete_filter: "AList.delete k xs = filter (\<lambda>e. fst e \<noteq> k) xs"
  by (induction xs) auto

lemma map_of_delete_self: "map_of (AList.delete k xs) k = None"
  by (simp add: AList.delete_eq map_of_eq_None_iff image_iff)

lemma orElse_Some: "orElse (Some x) [] = x"
  by (simp add: orElse_def)

lemma base64_decode_empty: "base64_decode [] = []"
  by (simp add: base64_decode_def)

section \<open>Disconnect leaves the pending requests alone\<close>

text \<open>
  Claim C9: when a socket disconnects, the handler removes only the registry record of the
  socket's device and broadcasts the new snapshot; the pending-request table, the promises of
  waiting listings, the response objects of running downloads and the scheduled timeouts are
  exactly what they were. A socket that never registered changes nothing at all.
\<close>

theorem disconnect_frame:
  "pendingRequests (on_disconnect sid s) = pendingRequests s \<and>
   promises (on_disconnect sid s) = promises s \<and>
   responses (on_disconnect sid s) = responses s \<and>
   timers (on_disconnect sid s) = timers s \<and>
   devices (on_disconnect sid s) =
     (if truthy (socketDeviceId s sid)
      then filter (\<lambda>e. Some (fst e) \<noteq> socketDeviceId s sid) (devices s) else devices s) \<and>
   outbox (on_disconnect sid s) =
     (if truthy (socketDeviceId s sid)
      then outbox s @ [ToAll ''devices'' (DevicesMsg (snapshot (devices (on_disconnect sid s))))]
      else outbox s)"
proof (cases "socketDeviceId s sid")
  case None
  then show ?thesis by (simp add: on_disconnect_def truthy_def)
next
  case (Some d)
  then show ?thesis
    by (simp add: on_disconnect_def truthy_def orElse_def broadcastDeviceList_def emit_def
        delete_filter)
qed

theorem disconnect_frame_witness:
  "pendingRequests (on_disconnect ''sock1'' browsing) = [(''req_a'', ListRequest 0 1700000001000)] \<and>
   promises (on_disconnect ''sock1'' browsing) 0 = Pending \<and>
   timers (on_disconnect ''sock1'' browsing) = [(0, 1700000031000, BrowseTimeout ''req_a'' 0)] \<and>
   devices (on_disconnect ''sock1'' browsing) = [] \<and>
   last (outbox (on_disconnect ''sock1'' browsing)) = ToAll ''devices'' (DevicesMsg [])"
  using disconnect_frame [of "''sock1''" browsing]
  by (simp add: scenario_defs effect_defs js_defs Let_def)

section \<open>Browse fails before anything is allocated\<close>

text \<open>
  Claim C8: a browse request that names a device fails at once with 404 (not found) when
  the registry has no record of the device, and with 400 (not connected) when the record has
  no socket. In both cases the handler returns the server state it was given: no correlation
  id, no promise, no timer, no emission, the same registry and the same pending requests.
\<close>

theorem browse_fails_synchronously:
  assumes "truthy deviceId"
  shows "(devices_get s deviceId = None \<longrightarrow>
            browse now requestId deviceId path s =
              (Replied (ErrorReply 404 ''Device not found or offline''), s)) \<and>
         (\<forall>dev. devices_get s deviceId = Some dev \<and> socketId dev = None \<longrightarrow>
            browse now requestId deviceId path s =
              (Replied (ErrorReply 400 ''Device not connected via WebSocket''), s))"
  using assms by (simp add: browse_def truthy_def)

theorem browse_fails_synchronously_witness:
  "browse 2000 ''req_a'' (Some ''dev-1'') (Some ''/'') initial =
     (Replied (ErrorReply 404 ''Device not found or offline''), initial) \<and>
   browse 2000 ''req_a'' (Some ''dev-1'') (Some ''/'') ftpOnly =
     (Replied (ErrorReply 400 ''Device not connected via WebSocket''), ftpOnly)"
proof -
  have t: "truthy (Some ''dev-1'')" by (simp add: truthy_def)
  have a: "devices_get initial (Some ''dev-1'') = None"
    by (simp add: devices_get_def initial_def)
  have b: "\<exists>dev. devices_get ftpOnly (Some ''dev-1'') = Some dev \<and> socketId dev = None"
    by (simp add: ftpOnly_def ftp_register_def initial_def effect_defs js_defs Let_def)
  from browse_fails_synchronously [OF t, of initial 2000 "''req_a''" "Some ''/''"] a
    browse_fails_synchronously [OF t, of ftpOnly 2000 "''req_a''" "Some ''/''"] b
  show ?thesis by blast
qed

section \<open>The sweep of pending requests and a running download\<close>

text \<open>
  Claim C3 says that the sweep of pending requests removes an entry only when its age
  exceeds the configured maximum, and never a download inside its 10-minute window. The
  sweep computes the age from \<open>request.timestamp\<close>, a field a download entry does not have
  (it stores \<open>startTime\<close>), so the age of a download entry is the clock itself. Here a
  download that started one second ago is swept: its entry is gone, its response has not
  been ended, its timer is still scheduled, and when that timer fires it finds no entry and
  leaves the response open.
\<close>

theorem sweep_removes_running_download:
  "pendingRequests downloading = [(''req_b'', DownloadRequest 7 1700000002000 (Some 0))] \<and>
   timers downloading = [(0, 1700000602000, DownloadTimeout ''req_b'' 7)] \<and>
   pendingRequests (cleanupPendingRequests 1700000003000 downloading) = [] \<and>
   ended (responses (cleanupPendingRequests 1700000003000 downloading) 7) = 0 \<and>
   timers (cleanupPendingRequests 1700000003000 downloading) =
     [(0, 1700000602000, DownloadTimeout ''req_b'' 7)] \<and>
   ended (responses (timeout_fires 0 (cleanupPendingRequests 1700000003000 downloading)) 7) = 0"
  by (simp add: scenario_defs cleanupPendingRequests_def sweepRequest_def
      PENDING_REQUEST_TIMEOUT_def timeout_fires_def res_setHeader_def effect_defs js_defs Let_def)

section \<open>The eviction sweep and the device-list broadcast\<close>

text \<open>Registration, over a socket or over HTTP, ends with the broadcast of the new snapshot.\<close>

lemma registration_broadcasts:
  "outbox (on_register now uuid sid (Some d) s) =
     outbox s @ [ToSocket sid ''registered'' (RegisteredMsg (orElse (reg_deviceId d) uuid)),
                 ToAll ''devices'' (DevicesMsg (snapshot (devices (on_register now uuid sid (Some d) s))))]"
  "outbox (on_register_device now uuid sid (Some d) s) =
     outbox s @ [ToSocket sid ''registered'' (RegisteredMsg (orElse (reg_deviceId d) uuid)),
                 ToAll ''devices'' (DevicesMsg (snapshot (devices (on_register_device now uuid sid (Some d) s))))]"
  by (simp_all add: on_register_def on_register_device_def broadcastDeviceList_def emit_def Let_def)

lemma ftp_register_broadcasts:
  assumes "truthy deviceId" and "truthy ipAddr"
  shows "outbox (snd (ftp_register now deviceId deviceName ipAddr s)) =
     outbox s @ [ToAll ''devices''
       (DevicesMsg (snapshot (devices (snd (ftp_register now deviceId deviceName ipAddr s)))))]"
  using assms by (simp add: ftp_register_def broadcastDeviceList_def emit_def Let_def)

text \<open>
  Claim C4 says that every operation changing the registry publishes the device snapshot,
  the eviction sweep included. The sweep never emits anything, whatever it removes: here it
  evicts the only registered device and the observers are told nothing.
\<close>

theorem sweep_publishes_nothing:
  "outbox (cleanupStaleDevices now s) = outbox s \<and>
   devices registered \<noteq> [] \<and>
   devices (cleanupStaleDevices 1700001800001 registered) = []"
  by (simp add: scenario_defs sweep_defs effect_defs js_defs Let_def)

section \<open>Signaling relay to a record without a socket\<close>

text \<open>The relay emits nothing for an unknown target and one message, addressed to the
  record's \<open>socketId\<close>, for a known one.\<close>

lemma relay_emits:
  "outbox (relay ev sid data s) =
     (case devices_get s (sig_targetDeviceId data) of
        None \<Rightarrow> outbox s
      | Some dev \<Rightarrow> outbox s @ [ToRoom (socketId dev) ev (SignalMsg (socketDeviceId s sid) (sig_payload data))])"
  by (simp add: relay_def emit_def split: option.split)

text \<open>
  Claim C5: handling a relay event (\<open>offer\<close>, \<open>answer\<close>, \<open>ice-candidate\<close>) delivers
  nothing when the target id has no record; when it has one, the message with the sender's
  device id and the payload is delivered to the connected socket whose id is the record's
  \<open>socketId\<close>, and to no other. A record whose \<open>socketId\<close> is \<open>null\<close>, as the HTTP
  registration creates it, gets nothing delivered: the handler's emit is addressed to a room
  that holds no socket.
\<close>

theorem relay_forwards_to_socket_only:
  "forwarded connected ev sid data s =
     (case devices_get s (sig_targetDeviceId data) of
        None \<Rightarrow> []
      | Some dev \<Rightarrow>
          (case socketId dev of
             None \<Rightarrow> []
           | Some h \<Rightarrow>
               map (\<lambda>c. (c, ev, SignalMsg (socketDeviceId s sid) (sig_payload data)))
                 (filter (\<lambda>c. c = h) connected)))"
  by (simp add: forwarded_def deliveries_def relay_def emit_def split: option.split)

text \<open>
  An offer for \<open>dev-1\<close> with two sockets connected: nothing is delivered while the device
  is unknown or registered over HTTP only; once it has registered over \<open>sock1\<close>, that
  socket and no other receives the offer.
\<close>

theorem relay_forwards_to_socket_only_witness:
  "forwarded [''sock1'', ''sock2''] ''offer'' ''sock2'' offer1 initial = [] \<and>
   forwarded [''sock1'', ''sock2''] ''offer'' ''sock2'' offer1 ftpOnly = [] \<and>
   forwarded [''sock1'', ''sock2''] ''offer'' ''sock2'' offer1 registered =
     [(''sock1'', ''offer'', SignalMsg None (Some ''sdp''))]"
proof -
  have a: "devices_get initial (sig_targetDeviceId offer1) = None"
    by (simp add: offer1_def initial_def devices_get_def)
  have b: "map_option socketId (devices_get ftpOnly (sig_targetDeviceId offer1)) = Some None"
    by (simp add: offer1_def scenario_defs effect_defs js_defs Let_def)
  have c: "map_option socketId (devices_get registered (sig_targetDeviceId offer1)) =
      Some (Some ''sock1'')"
    "socketDeviceId registered ''sock2'' = None" "sig_payload offer1 = Some ''sdp''"
    by (simp_all add: offer1_def scenario_defs effect_defs js_defs Let_def)
  from a b c
    relay_forwards_to_socket_only [of "[''sock1'', ''sock2'']" "''offer''" "''sock2''" offer1 initial]
    relay_forwards_to_socket_only [of "[''sock1'', ''sock2'']" "''offer''" "''sock2''" offer1 ftpOnly]
    relay_forwards_to_socket_only [of "[''sock1'', ''sock2'']" "''offer''" "''sock2''" offer1 registered]
  show ?thesis by (auto split: option.splits)
qed

section \<open>Ping and the last-activity time\<close>

text \<open>
  Claim C6 says that a ping refreshes the device's \<open>lastActivity\<close>, so that a device that
  keeps pinging is never evicted. It does not: a device registered at 1700000000000 that
  pings 30 minutes later still carries its registration time, and the sweep one millisecond
  after the ping evicts it.
\<close>

theorem ping_refreshes_counterexample:
  "map_option lastActivity (map_of (devices (on_ping 1700001800000 ''sock1'' registered)) ''dev-1'') =
     Some 1700000000000 \<and>
   map_of (devices (cleanupStaleDevices 1700001800001 (on_ping 1700001800000 ''sock1'' registered)))
     ''dev-1'' = None"
  by (simp add: scenario_defs on_ping_def sweep_defs effect_defs js_defs Let_def)

text \<open>
  Claim C6, as amended: the ping handler only answers \<open>pong\<close> with the current time to the
  pinging socket. It leaves the registry as it is, every \<open>lastActivity\<close> included, so the
  eviction sweep removes the same records whether or not a ping came in.
\<close>

theorem ping_only_answers:
  "on_ping now sid s = s\<lparr>outbox := outbox s @ [ToSocket sid ''pong'' (PongMsg now)]\<rparr> \<and>
   devices (on_ping now sid s) = devices s \<and>
   devices (cleanupStaleDevices t (on_ping now sid s)) = devices (cleanupStaleDevices t s)"
  by (simp add: on_ping_def emit_def cleanupStaleDevices_def)

theorem ping_only_answers_witness:
  "devices (on_ping 1700001800000 ''sock1'' registered) = devices registered \<and>
   devices (cleanupStaleDevices 1700001800001 (on_ping 1700001800000 ''sock1'' registered)) = []"
  using ping_only_answers [of 1700001800000 "''sock1''" registered 1700001800001]
  by (simp add: scenario_defs sweep_defs effect_defs js_defs Let_def)

section \<open>The broadcast of device responses\<close>

text \<open>A handler that returns has broadcast the event as its last emission, and it returns
  whenever the correlation id is not pending; then the broadcast is all it does.\<close>

lemma list_response_broadcast:
  assumes "on_ftp_list_response sid data s = (None, s')"
  shows "outbox s' = outbox s @ [ToAll ''ftp-list-response''
           (ListResponseMsg (lr_requestId data) (socketDeviceId s sid) (lr_files data) (lr_error data))]"
  using assms
  by (auto simp: on_ftp_list_response_def emit_def settle_def pending_delete_def Let_def
      split: option.splits pendingRequest.splits if_splits)

lemma list_response_unknown_id:
  assumes "pending_get s (lr_requestId data) = None"
  shows "on_ftp_list_response sid data s =
     (None, s\<lparr>outbox := outbox s @ [ToAll ''ftp-list-response''
        (ListResponseMsg (lr_requestId data) (socketDeviceId s sid) (lr_files data) (lr_error data))]\<rparr>)"
  using assms by (simp add: on_ftp_list_response_def emit_def Let_def)

lemma chunk_broadcast:
  assumes "on_ftp_download_chunk sid data s = (None, s')"
  shows "outbox s' = outbox s @ [ToAll ''ftp-download-chunk''
           (DownloadChunkMsg (ch_requestId data) (socketDeviceId s sid) (ch_chunk data)
              (ch_isLast data) (ch_error data))]"
  using assms
  by (auto simp: on_ftp_download_chunk_def emit_def onResponse_def pending_delete_def
      clearTimeout_def Let_def split: option.splits pendingRequest.splits if_splits)

lemma chunk_unknown_id:
  assumes "pending_get s (ch_requestId data) = None"
  shows "on_ftp_download_chunk sid data s =
     (None, s\<lparr>outbox := outbox s @ [ToAll ''ftp-download-chunk''
        (DownloadChunkMsg (ch_requestId data) (socketDeviceId s sid) (ch_chunk data)
           (ch_isLast data) (ch_error data))]\<rparr>)"
  using assms by (simp add: on_ftp_download_chunk_def emit_def Let_def)

text \<open>
  Claim C10 says that every \<open>ftp-list-response\<close> and \<open>ftp-download-chunk\<close> event is
  re-emitted to all sockets whatever the pending table holds. The broadcast is the last
  statement of each handler, and a handler that throws never reaches it: a listing response
  that names a pending download finds an entry without \<open>resolve\<close>, throws, and leaves the
  server as it was, with nothing emitted and the entry still pending.
\<close>

theorem list_response_on_download_entry_throws:
  "on_ftp_list_response ''sock1''
     \<lparr>lr_requestId = Some ''req_b'', lr_files = Some ''[]'', lr_error = None\<rparr> downloading =
   (Some (TypeError ''pendingRequest.resolve is not a function''), downloading)"
  by (simp add: scenario_defs on_ftp_list_response_def res_setHeader_def effect_defs js_defs Let_def)

section \<open>Chunks reach the response in order\<close>

text \<open>One chunk that is not the last: written to the response, everything else kept.\<close>

lemma chunk_more:
  assumes "map_of (pendingRequests s) rid = Some (DownloadRequest r st tid)"
  shows "\<exists>s'. handle s (chunkEvent sid rid False c) = (None, s') \<and>
           pendingRequests s' = pendingRequests s \<and> timers s' = timers s \<and>
           concat (written (responses s' r)) = concat (written (responses s r)) @ base64_decode c \<and>
           ended (responses s' r) = ended (responses s r)"
  using assms
  by (simp add: chunkEvent_def on_ftp_download_chunk_def pending_get_def truthy_def truthyFlag_def
      emit_def onResponse_def res_write_def base64_decode_empty orElse_Some Let_def)

text \<open>The last chunk: written, then the response ended, the timer cleared, the entry deleted.\<close>

lemma chunk_last:
  assumes "map_of (pendingRequests s) rid = Some (DownloadRequest r st (Some tid))"
  shows "\<exists>s'. handle s (chunkEvent sid rid True c) = (None, s') \<and>
           map_of (pendingRequests s') rid = None \<and> map_of (timers s') tid = None \<and>
           concat (written (responses s' r)) = concat (written (responses s r)) @ base64_decode c \<and>
           ended (responses s' r) = ended (responses s r) + 1"
  using assms
  by (simp add: chunkEvent_def on_ftp_download_chunk_def pending_get_def truthy_def truthyFlag_def
      emit_def onResponse_def res_write_def res_end_def base64_decode_empty orElse_Some
      pending_delete_def clearTimeout_def map_of_delete_self Let_def)

text \<open>
  Claim C2: for a pending download with its response and timer, handling the chunk events
  \<open>(c1, false), ..., (cn, true)\<close> of its correlation id, none with an error, raises nothing,
  appends to the bytes written to the response exactly the base64-decoded chunks in the order
  sent, ends the response exactly once, clears the download's timer and removes the entry
  from the pending table.
\<close>

theorem chunks_reach_the_sink_in_order:
  assumes "map_of (pendingRequests s) rid = Some (DownloadRequest r st (Some tid))"
  shows "fst (run s (chunkEvents sid rid cs cn)) = None \<and>
         concat (written (responses (snd (run s (chunkEvents sid rid cs cn))) r)) =
           concat (written (responses s r)) @ concat (map base64_decode (cs @ [cn])) \<and>
         ended (responses (snd (run s (chunkEvents sid rid cs cn))) r) = ended (responses s r) + 1 \<and>
         map_of (timers (snd (run s (chunkEvents sid rid cs cn)))) tid = None \<and>
         map_of (pendingRequests (snd (run s (chunkEvents sid rid cs cn)))) rid = None"
  using assms
proof (induction cs arbitrary: s)
  case Nil
  from chunk_last [OF Nil, of sid cn] obtain s' where
    "handle s (chunkEvent sid rid True cn) = (None, s')"
    "map_of (pendingRequests s') rid = None" "map_of (timers s') tid = None"
    "concat (written (responses s' r)) = concat (written (responses s r)) @ base64_decode cn"
    "ended (responses s' r) = ended (responses s r) + 1"
    by blast
  then show ?case by (simp add: chunkEvents_def)
next
  case (Cons c cs)
  from chunk_more [OF Cons.prems, of sid c] obtain s' where
    h: "handle s (chunkEvent sid rid False c) = (None, s')" and
    p: "pendingRequests s' = pendingRequests s" and
    w: "concat (written (responses s' r)) = concat (written (responses s r)) @ base64_decode c" and
    e: "ended (responses s' r) = ended (responses s r)"
    by blast
  from p Cons.prems have "map_of (pendingRequests s') rid = Some (DownloadRequest r st (Some tid))"
    by simp
  from Cons.IH [OF this] h w e show ?case
    by (simp add: chunkEvents_def)
qed

text \<open>The scenario of the specification: chunks \<open>AA==\<close> and \<open>QkI=\<close>, the second one last.\<close>

theorem chunks_reach_the_sink_in_order_witness:
  "fst (run downloading (chunkEvents ''sock1'' ''req_b'' [''AA==''] ''QkI='')) = None \<and>
   concat (written (responses (snd (run downloading
     (chunkEvents ''sock1'' ''req_b'' [''AA==''] ''QkI=''))) 7)) = [0, 66, 66] \<and>
   ended (responses (snd (run downloading
     (chunkEvents ''sock1'' ''req_b'' [''AA==''] ''QkI=''))) 7) = 1 \<and>
   timers (snd (run downloading (chunkEvents ''sock1'' ''req_b'' [''AA==''] ''QkI=''))) = [] \<and>
   pendingRequests (snd (run downloading (chunkEvents ''sock1'' ''req_b'' [''AA==''] ''QkI=''))) = []"
proof -
  have a: "map_of (pendingRequests downloading) ''req_b'' =
      Some (DownloadRequest 7 1700000002000 (Some 0))"
    by (simp add: scenario_defs res_setHeader_def effect_defs js_defs Let_def)
  have d: "base64_decode ''AA=='' = [0]" "base64_decode ''QkI='' = [66, 66]"
    by (simp_all add: base64_decode_def unbase64_def b64chars_def)
  have w: "written (responses downloading 7) = []" "ended (responses downloading 7) = 0"
    by (simp_all add: scenario_defs res_setHeader_def effect_defs js_defs Let_def)
  have rest:
    "timers (snd (run downloading (chunkEvents ''sock1'' ''req_b'' [''AA==''] ''QkI=''))) = []"
    "pendingRequests (snd (run downloading (chunkEvents ''sock1'' ''req_b'' [''AA==''] ''QkI=''))) = []"
    by (simp_all add: scenario_defs chunkEvents_def chunkEvent_def on_ftp_download_chunk_def
        res_setHeader_def res_write_def res_end_def effect_defs js_defs Let_def)
  from chunks_reach_the_sink_in_order [OF a, of "''sock1''" "[''AA=='']" "''QkI=''"] d w rest
  show ?thesis by simp
qed

section \<open>A correlation id resolves at most once\<close>







section \<open>The eviction sweep of the registry\<close>

text \<open>The two loops of the sweep, as filters of the registry.\<close>

lemma foldl_delete_stale:
  "foldl (\<lambda>m (k, d). if P d then AList.delete k m else m) m es =
     filter (\<lambda>e. fst e \<notin> fst ` {x \<in> set es. P (snd x)}) m"
proof (induction es arbitrary: m)
  case Nil
  then show ?case by simp
next
  case (Cons x es)
  obtain k d where x: "x = (k, d)" by (cases x)
  have "{y \<in> set (x # es). P (snd y)} =
      (if P d then insert (k, d) {y \<in> set es. P (snd y)} else {y \<in> set es. P (snd y)})"
    by (auto simp: x)
  then show ?case
    by (auto simp: x Cons.IH delete_filter intro!: filter_cong)
qed

lemma foldl_delete_first:
  "k \<le> length xs \<Longrightarrow>
   foldl (\<lambda>m i. AList.delete (fst (xs ! i)) m) m [0..<k] =
     filter (\<lambda>e. fst e \<notin> fst ` set (take k xs)) m"
proof (induction k)
  case 0
  then show ?case by simp
next
  case (Suc k)
  then have "k < length xs" by simp
  then have "take (Suc k) xs = take k xs @ [xs ! k]"
    by (simp add: take_Suc_conv_app_nth)
  with Suc show ?case
    by (auto simp: delete_filter intro!: filter_cong)
qed

text \<open>A \<open>Map\<close> holds one entry per key, so a key names its entry.\<close>

lemma key_in_image:
  assumes "distinct (map fst xs)" and "A \<subseteq> set xs" and "e \<in> set xs"
  shows "fst e \<in> fst ` A \<longleftrightarrow> e \<in> A"
proof
  assume "fst e \<in> fst ` A"
  then obtain a where a: "a \<in> A" "fst a = fst e" by force
  from assms(1) have "inj_on fst (set xs)" by (simp add: distinct_map)
  with a assms(2,3) have "a = e" by (auto dest: inj_onD)
  with a show "e \<in> A" by simp
qed auto

lemma evictStale_filter:
  assumes "distinct (map fst ds)"
  shows "evictStale ttl now ds = filter (\<lambda>e. \<not> now - lastActivityOf (snd e) > ttl) ds"
proof -
  have "filter (\<lambda>e. fst e \<notin> fst ` {x \<in> set ds. now - lastActivityOf (snd x) > ttl}) ds =
        filter (\<lambda>e. \<not> now - lastActivityOf (snd e) > ttl) ds"
  proof (rule filter_cong [OF refl])
    fix e assume e: "e \<in> set ds"
    from key_in_image [OF assms _ e, of "{x \<in> set ds. now - lastActivityOf (snd x) > ttl}"] e
    show "(fst e \<notin> fst ` {x \<in> set ds. now - lastActivityOf (snd x) > ttl}) =
          (\<not> now - lastActivityOf (snd e) > ttl)"
      by auto
  qed
  then show ?thesis
    by (simp add: evictStale_def foldl_delete_stale)
qed

lemma enforceMax_filter:
  assumes "distinct (map fst ds)"
  shows "enforceMax maxDevices ds =
     filter (\<lambda>e. e \<notin> set (take (length ds - maxDevices) (sort_key (\<lambda>e. lastActivityOf (snd e)) ds))) ds"
proof (cases "length ds > maxDevices")
  case False
  then show ?thesis by (simp add: enforceMax_def)
next
  case True
  let ?S = "sort_key (\<lambda>e. lastActivityOf (snd e)) ds"
  let ?k = "length ds - maxDevices"
  have sub: "set (take ?k ?S) \<subseteq> set ds"
    using set_take_subset [of ?k ?S] by simp
  have "filter (\<lambda>e. fst e \<notin> fst ` set (take ?k ?S)) ds = filter (\<lambda>e. e \<notin> set (take ?k ?S)) ds"
  proof (rule filter_cong [OF refl])
    fix e assume "e \<in> set ds"
    from key_in_image [OF assms sub this]
    show "(fst e \<notin> fst ` set (take ?k ?S)) = (e \<notin> set (take ?k ?S))" by simp
  qed
  with True show ?thesis
    by (simp add: enforceMax_def foldl_delete_first Let_def)
qed

text \<open>Every handler that writes the registry keeps one record per device id.\<close>

lemma registry_keys_distinct:
  assumes "distinct (map fst (devices s))"
  shows "distinct (map fst (devices (on_register now uuid sid data s)))"
    and "distinct (map fst (devices (on_register_device now uuid sid data s)))"
    and "distinct (map fst (devices (snd (ftp_register now deviceId deviceName ipAddr s))))"
    and "distinct (map fst (devices (on_disconnect sid s)))"
    and "distinct (map fst (devices (cleanupStaleDevices now s)))"
proof -
  show "distinct (map fst (devices (on_register now uuid sid data s)))"
    using assms
    by (cases data)
      (simp_all add: on_register_def broadcastDeviceList_def emit_def distinct_update Let_def)
  show "distinct (map fst (devices (on_register_device now uuid sid data s)))"
    using assms
    by (cases data)
      (simp_all add: on_register_device_def broadcastDeviceList_def emit_def distinct_update Let_def)
  show "distinct (map fst (devices (snd (ftp_register now deviceId deviceName ipAddr s))))"
    using assms
    by (simp add: ftp_register_def broadcastDeviceList_def emit_def distinct_update Let_def)
  show "distinct (map fst (devices (on_disconnect sid s)))"
    using assms
    by (simp add: on_disconnect_def broadcastDeviceList_def emit_def distinct_delete)
  from assms have "distinct (map fst (evictStale DEVICE_TTL now (devices s)))"
    by (simp add: evictStale_filter distinct_map_filter)
  then show "distinct (map fst (devices (cleanupStaleDevices now s)))"
    by (simp add: cleanupStaleDevices_def sweepDevices_def enforceMax_filter distinct_map_filter)
qed

lemma length_enforceMax:
  assumes "distinct (map fst ds)"
  shows "length (enforceMax maxDevices ds) = min maxDevices (length ds)"
proof -
  let ?S = "sort_key (\<lambda>e. lastActivityOf (snd e)) ds"
  let ?k = "length ds - maxDevices"
  from assms have d: "distinct ds" by (simp add: distinct_map)
  then have dS: "distinct (take ?k ?S)" by simp
  have sub: "set (take ?k ?S) \<subseteq> set ds"
    using set_take_subset [of ?k ?S] by simp
  have "card (set (take ?k ?S)) = ?k"
    using distinct_card [OF dS] by simp
  moreover have "{x. x \<notin> set (take ?k ?S)} \<inter> set ds = set ds - set (take ?k ?S)"
    by auto
  moreover have "card (set ds - set (take ?k ?S)) = card (set ds) - card (set (take ?k ?S))"
    using sub by (simp add: card_Diff_subset)
  ultimately have "length (filter (\<lambda>e. e \<notin> set (take ?k ?S)) ds) = length ds - ?k"
    using d by (simp add: distinct_length_filter distinct_card)
  then show ?thesis
    by (simp add: enforceMax_filter [OF assms] min_def)
qed

text \<open>The entries taken from the front of the sorted array are the least recently active.\<close>

lemma oldest_first:
  assumes "r \<in> set (take k (sort_key f xs))" and "v \<in> set xs" and "v \<notin> set (take k (sort_key f xs))"
  shows "f r \<le> f v"
proof -
  let ?S = "sort_key f xs"
  have "set ?S = set (take k ?S) \<union> set (drop k ?S)"
    by (metis append_take_drop_id set_append)
  with assms(2,3) have v: "v \<in> set (drop k ?S)" by simp
  have "sorted (map f (take k ?S @ drop k ?S))" by simp
  then have "\<forall>x \<in> set (take k ?S). \<forall>y \<in> set (drop k ?S). f x \<le> f y"
    unfolding map_append sorted_append by simp
  with assms(1) v show ?thesis by blast
qed

text \<open>
  Claim C7: on a registry (one record per device id) the eviction sweep first removes
  exactly the records whose last activity is more than the TTL before now, and no others.
  If more than the maximum count remain, it then removes exactly the excess, taken from the
  front of the remaining records sorted by last activity, oldest first; otherwise it removes
  nothing more. Afterwards the registry holds at most the maximum count of records, and every
  record that survived is at least as recently active as every record that was removed.
  \<open>cleanupStaleDevices\<close> is \<open>sweepDevices\<close> at the configured \<open>DEVICE_TTL\<close> and
  \<open>MAX_DEVICES\<close>.
\<close>

theorem sweep_evicts_stale_then_oldest:
  assumes "distinct (map fst ds)"
  shows "evictStale ttl now ds = filter (\<lambda>e. \<not> now - lastActivityOf (snd e) > ttl) ds \<and>
         sweepDevices ttl maxDevices now ds =
           filter (\<lambda>e. e \<notin> set (take (length (evictStale ttl now ds) - maxDevices)
                                   (sort_key (\<lambda>e. lastActivityOf (snd e)) (evictStale ttl now ds))))
             (evictStale ttl now ds) \<and>
         length (sweepDevices ttl maxDevices now ds) = min maxDevices (length (evictStale ttl now ds)) \<and>
         (\<forall>r \<in> set ds - set (sweepDevices ttl maxDevices now ds).
            \<forall>v \<in> set (sweepDevices ttl maxDevices now ds).
              lastActivityOf (snd r) \<le> lastActivityOf (snd v))"
proof -
  let ?F = "evictStale ttl now ds"
  let ?T = "take (length ?F - maxDevices) (sort_key (\<lambda>e. lastActivityOf (snd e)) ?F)"
  have F: "?F = filter (\<lambda>e. \<not> now - lastActivityOf (snd e) > ttl) ds"
    by (rule evictStale_filter [OF assms])
  from assms have dF: "distinct (map fst ?F)"
    unfolding F by (rule distinct_map_filter)
  have out: "sweepDevices ttl maxDevices now ds = filter (\<lambda>e. e \<notin> set ?T) ?F"
    unfolding sweepDevices_def by (rule enforceMax_filter [OF dF])
  have len: "length (sweepDevices ttl maxDevices now ds) = min maxDevices (length ?F)"
    unfolding sweepDevices_def by (rule length_enforceMax [OF dF])
  have ord: "lastActivityOf (snd r) \<le> lastActivityOf (snd v)"
    if r: "r \<in> set ds - set (sweepDevices ttl maxDevices now ds)"
      and v: "v \<in> set (sweepDevices ttl maxDevices now ds)" for r v
  proof -
    from v have vF: "v \<in> set ?F" and vT: "v \<notin> set ?T" by (simp_all add: out)
    from vF have vfresh: "\<not> now - lastActivityOf (snd v) > ttl" by (simp add: F)
    show ?thesis
    proof (cases "now - lastActivityOf (snd r) > ttl")
      case True
      with vfresh show ?thesis by simp
    next
      case False
      with r have "r \<in> set ?F" by (simp add: F)
      with r have "r \<in> set ?T" by (simp add: out)
      from oldest_first [OF this vF vT] show ?thesis .
    qed
  qed
  from F out len ord show ?thesis by blast
qed

theorem sweep_evicts_stale_then_oldest_witness:
  "map fst (devices threeDevices) = [''dev-1'', ''dev-2'', ''dev-3''] \<and>
   map fst (evictStale DEVICE_TTL 1700001800001 (devices threeDevices)) = [''dev-2'', ''dev-3''] \<and>
   map fst (sweepDevices DEVICE_TTL 1 1700001800001 (devices threeDevices)) = [''dev-3''] \<and>
   length (sweepDevices DEVICE_TTL 1 1700001800001 (devices threeDevices)) = 1"
proof -
  have ds: "map fst (devices threeDevices) = [''dev-1'', ''dev-2'', ''dev-3'']"
    by (simp add: threeDevices_def on_register_def scenario_defs effect_defs js_defs Let_def)
  then have d: "distinct (map fst (devices threeDevices))" by simp
  have e: "map fst (filter (\<lambda>e. \<not> 1700001800001 - lastActivityOf (snd e) > DEVICE_TTL) (devices threeDevices)) =
      [''dev-2'', ''dev-3'']"
    by (simp add: threeDevices_def on_register_def scenario_defs effect_defs js_defs
        lastActivityOf_def DEVICE_TTL_def Let_def)
  have o: "map fst (sweepDevices DEVICE_TTL 1 1700001800001 (devices threeDevices)) = [''dev-3'']"
    by (simp add: threeDevices_def on_register_def scenario_defs effect_defs js_defs sweep_defs Let_def)
  note t = sweep_evicts_stale_then_oldest [OF d, of DEVICE_TTL 1700001800001 1]
  from t have t1: "evictStale DEVICE_TTL 1700001800001 (devices threeDevices) =
      filter (\<lambda>e. \<not> 1700001800001 - lastActivityOf (snd e) > DEVICE_TTL) (devices threeDevices)"
    by (rule conjunct1)
  have ev: "map fst (evictStale DEVICE_TTL 1700001800001 (devices threeDevices)) = [''dev-2'', ''dev-3'']"
    unfolding t1 by (rule e)
  from arg_cong [where f = length, OF ev]
  have n: "length (evictStale DEVICE_TTL 1700001800001 (devices threeDevices)) = 2" by simp
  from t have "length (sweepDevices DEVICE_TTL 1 1700001800001 (devices threeDevices)) =
      min 1 (length (evictStale DEVICE_TTL 1700001800001 (devices threeDevices)))"
    by blast
  then have l: "length (sweepDevices DEVICE_TTL 1 1700001800001 (devices threeDevices)) = 1"
    unfolding n by simp
  from ds ev o l show ?thesis by blast
qed

end
